theory Spec2Isabelle
  imports Complex_Main
begin

section \<open>Data model (types.ts)\<close>

text \<open>
  \<^verbatim>\<open>GestureResponse\<close>, \<^verbatim>\<open>AppState\<close> and \<^verbatim>\<open>HistoryItem\<close> as declared. A JavaScript
  \<^verbatim>\<open>number\<close> is modelled by the real number it denotes. The only arithmetic the program
  performs on \<^verbatim>\<open>confidence\<close> is the comparison \<^verbatim>\<open>> 0.6\<close>; on doubles that comparison is
  exact, and since no double lies strictly between the double nearest to 0.6 and the real
  0.6, it agrees with the comparison of the denoted real against 0.6. The values that
  denote no real are left out: JSON text cannot denote NaN, and a literal that overflows
  to Infinity would compare like any confidence above 0.6. Strings are byte lists; text
  outside ASCII is written as its UTF-8 bytes, as the source file stores it.
\<close>

record GestureResponse =
  gesture :: string
  confidence :: real
  description :: string
  emoji :: string
  actionSuggested :: "string option"

datatype AppState = IDLE | SCANNING | ERROR

record HistoryItem =
  timestamp :: int
  result :: GestureResponse

section \<open>services/geminiService.ts\<close>

text \<open>
  The image argument is stripped of a leading data-URL header by
  \<^verbatim>\<open>base64Image.replace(/^data:image\/\w+;base64,/, "")\<close>. The class \<^verbatim>\<open>\w\<close> is
  \<^verbatim>\<open>[A-Za-z0-9_]\<close>; it excludes \<^verbatim>\<open>;\<close>, so the only way the pattern can match is with
  \<^verbatim>\<open>\w+\<close> taking the maximal run of word characters.
\<close>

definition word_char :: "char \<Rightarrow> bool" where
  "word_char c =
     (let n = (of_char c :: nat)
      in (48 \<le> n \<and> n \<le> 57) \<or> (65 \<le> n \<and> n \<le> 90) \<or> n = 95 \<or> (97 \<le> n \<and> n \<le> 122))"

fun strip_prefix :: "string \<Rightarrow> string \<Rightarrow> string option" where
  "strip_prefix [] s = Some s"
| "strip_prefix (p # ps) [] = None"
| "strip_prefix (p # ps) (c # cs) = (if p = c then strip_prefix ps cs else None)"

definition cleanBase64 :: "string \<Rightarrow> string" where
  "cleanBase64 base64Image =
     (case strip_prefix ''data:image/'' base64Image of
        None \<Rightarrow> base64Image
      | Some r \<Rightarrow>
          (if takeWhile word_char r = [] then base64Image
           else (case strip_prefix '';base64,'' (dropWhile word_char r) of
                   None \<Rightarrow> base64Image
                 | Some data \<Rightarrow> data)))"

text \<open>
  What can be thrown inside the \<^verbatim>\<open>try\<close> block of \<^verbatim>\<open>analyzeGesture\<close>: the awaited
  \<^verbatim>\<open>generateContent\<close> promise rejects, the explicit \<^verbatim>\<open>throw\<close> on a falsy \<^verbatim>\<open>response.text\<close>,
  or \<^verbatim>\<open>JSON.parse\<close> throws.
\<close>

datatype js_error = TransportError | NoResponseText | SyntaxError

text \<open>
  The remote call either rejects or resolves with a response whose \<^verbatim>\<open>text\<close> is a string or
  \<^verbatim>\<open>undefined\<close>. It is an input of the model, as is \<^verbatim>\<open>JSON.parse\<close> followed by the cast to
  \<^verbatim>\<open>GestureResponse\<close> (\<open>None\<close> when it throws). The cast is unchecked in the source; the
  model takes the declared type at its word, so a parsed value is a \<^verbatim>\<open>GestureResponse\<close>.
\<close>

datatype generate_outcome = Rejected | Resolved "string option"

type_synonym json_parse = "string \<Rightarrow> GestureResponse option"

type_synonym generate_content = "string \<Rightarrow> generate_outcome"

definition analyzeGesture_try :: "json_parse \<Rightarrow> generate_content \<Rightarrow> string \<Rightarrow> js_error + GestureResponse" where
  "analyzeGesture_try JSON_parse generateContent base64Image =
     (case generateContent (cleanBase64 base64Image) of
        Rejected \<Rightarrow> Inl TransportError
      | Resolved None \<Rightarrow> Inl NoResponseText
      | Resolved (Some text) \<Rightarrow>
          (if text = [] then Inl NoResponseText
           else (case JSON_parse text of
                   None \<Rightarrow> Inl SyntaxError
                 | Some r \<Rightarrow> Inr r)))"

text \<open>The object literal returned by the \<^verbatim>\<open>catch\<close> block (U+26A0 U+FE0F as the emoji).\<close>

definition errorFallback :: GestureResponse where
  "errorFallback =
     \<lparr>gesture = ''Error'', confidence = 0, description = ''Failed to analyze frame.'',
      emoji = [CHR 0xE2, CHR 0x9A, CHR 0xA0, CHR 0xEF, CHR 0xB8, CHR 0x8F],
      actionSuggested = None\<rparr>"

text \<open>
  The promise returned by \<^verbatim>\<open>analyzeGesture\<close>: \<open>Inr\<close> when it fulfils, \<open>Inl\<close> when it
  rejects.
\<close>

definition analyzeGesture :: "json_parse \<Rightarrow> generate_content \<Rightarrow> string \<Rightarrow> js_error + GestureResponse" where
  "analyzeGesture JSON_parse generateContent base64Image =
     (case analyzeGesture_try JSON_parse generateContent base64Image of
        Inl error \<Rightarrow> Inr errorFallback
      | Inr r \<Rightarrow> Inr r)"

section \<open>App and WebcamCapture\<close>

text \<open>
  One record holds the state of the mounted \<^verbatim>\<open>App\<close> component (its five \<^verbatim>\<open>useState\<close> cells
  and the \<^verbatim>\<open>isProcessingRef\<close> ref), of its \<^verbatim>\<open>WebcamCapture\<close> child (\<^verbatim>\<open>streamActive\<close>,
  \<^verbatim>\<open>permissionDenied\<close>, and whether the capture-loop effect currently has an interval
  registered), and the images of the \<^verbatim>\<open>analyzeGesture\<close> calls that have been issued and
  have not settled yet, oldest first.
\<close>

record state =
  appState :: AppState
  currentResult :: "GestureResponse option"
  history :: "HistoryItem list"
  isProcessing :: bool
  errorMsg :: "string option"
  isProcessingRef :: bool
  streamActive :: bool
  permissionDenied :: bool
  interval :: bool
  pending :: "string list"

definition init :: state where
  "init =
     \<lparr>appState = IDLE, currentResult = None, history = [], isProcessing = False,
      errorMsg = None, isProcessingRef = False, streamActive = False,
      permissionDenied = False, interval = False, pending = []\<rparr>"

subsection \<open>handleCapture\<close>

text \<open>
  \<^verbatim>\<open>handleCapture\<close> is asynchronous. Its synchronous head runs up to the \<^verbatim>\<open>await\<close>: it
  returns at once when the ref is set, and otherwise sets the ref and issues the call.
\<close>

definition handleCapture :: "string \<Rightarrow> state \<Rightarrow> state" where
  "handleCapture base64Image s =
     (if isProcessingRef s then s
      else s\<lparr>isProcessingRef := True, isProcessing := True, errorMsg := None,
             pending := pending s @ [base64Image]\<rparr>)"

text \<open>
  The rest of the \<^verbatim>\<open>try\<close> block, run with the awaited result; \<open>now\<close> is the value of
  \<^verbatim>\<open>Date.now()\<close>, and \<^verbatim>\<open>[newItem, ...prev].slice(0, 20)\<close> is \<open>take 20 (newItem # prev)\<close>.
\<close>

definition handleCapture_try :: "GestureResponse \<Rightarrow> int \<Rightarrow> state \<Rightarrow> state" where
  "handleCapture_try r now s =
     (let s1 = s\<lparr>currentResult := Some r\<rparr>
      in if gesture r \<noteq> ''None'' \<and> gesture r \<noteq> ''Error'' \<and> confidence r > 0.6
         then s1\<lparr>history := take 20 (\<lparr>timestamp = now, result = r\<rparr> # history s1)\<rparr>
         else s1)"

text \<open>
  The continuation after the \<^verbatim>\<open>await\<close>: the \<^verbatim>\<open>try\<close> body on fulfilment, the \<^verbatim>\<open>catch\<close>
  (which only logs) on rejection, then the \<^verbatim>\<open>finally\<close> block in both cases.
\<close>

definition handleCapture_settle :: "js_error + GestureResponse \<Rightarrow> int \<Rightarrow> state \<Rightarrow> state" where
  "handleCapture_settle awaited now s =
     (let s1 = (case awaited of Inl err \<Rightarrow> s | Inr r \<Rightarrow> handleCapture_try r now s)
      in s1\<lparr>isProcessing := False, isProcessingRef := False\<rparr>)"

subsection \<open>toggleScanning, handleError and the header button\<close>

definition toggleScanning :: "state \<Rightarrow> state" where
  "toggleScanning s =
     (if appState s = SCANNING then s\<lparr>appState := IDLE, currentResult := None\<rparr>
      else s\<lparr>appState := SCANNING, errorMsg := None\<rparr>)"

definition handleError :: "string \<Rightarrow> state \<Rightarrow> state" where
  "handleError msg s = s\<lparr>appState := ERROR, errorMsg := Some msg\<rparr>"

text \<open>
  The button carries \<^verbatim>\<open>onClick={toggleScanning}\<close> and
  \<^verbatim>\<open>disabled={appState === AppState.ERROR}\<close>: a disabled button dispatches no click.
\<close>

definition button_onClick :: "state \<Rightarrow> state" where
  "button_onClick s = (if appState s = ERROR then s else toggleScanning s)"

subsection \<open>WebcamCapture: the capture loop\<close>

text \<open>The prop \<^verbatim>\<open>isScanning={appState === AppState.SCANNING}\<close>.\<close>

definition isScanning :: "state \<Rightarrow> bool" where
  "isScanning s = (appState s = SCANNING)"

text \<open>
  \<^verbatim>\<open>captureFrame\<close>. The refs \<^verbatim>\<open>videoRef.current\<close> and \<^verbatim>\<open>canvasRef.current\<close> are attached for as
  long as the component is mounted. The argument \<open>frame\<close> is what the video element offers
  at the time of the call: \<open>None\<close> when there is no 2d context or the video has a zero
  dimension, otherwise \<open>Some\<close> of the data URL that \<^verbatim>\<open>canvas.toDataURL\<close> returns.
  \<^verbatim>\<open>onCapture\<close> is \<^verbatim>\<open>handleCapture\<close>.
\<close>

definition captureFrame :: "string option \<Rightarrow> state \<Rightarrow> state" where
  "captureFrame frame s =
     (if \<not> isScanning s \<or> \<not> streamActive s then s
      else (case frame of None \<Rightarrow> s | Some imageData \<Rightarrow> handleCapture imageData s))"

text \<open>
  The effect with dependencies \<^verbatim>\<open>[isScanning, onCapture, streamActive]\<close>: its cleanup clears
  the interval of the previous run; its body, when scanning, captures at once and registers
  a new interval. \<^verbatim>\<open>onCapture\<close> is memoised with no dependencies, so the effect re-runs
  exactly when \<^verbatim>\<open>isScanning\<close> or \<^verbatim>\<open>streamActive\<close> changed in a render.
\<close>

definition captureLoopEffect :: "string option \<Rightarrow> state \<Rightarrow> state" where
  "captureLoopEffect frame s =
     (if isScanning s then (captureFrame frame (s\<lparr>interval := False\<rparr>))\<lparr>interval := True\<rparr>
      else s\<lparr>interval := False\<rparr>)"

definition rerender :: "string option \<Rightarrow> state \<Rightarrow> state \<Rightarrow> state" where
  "rerender frame old new =
     (if isScanning old \<noteq> isScanning new \<or> streamActive old \<noteq> streamActive new
      then captureLoopEffect frame new else new)"

subsection \<open>Events\<close>

text \<open>
  What can happen to the mounted application: the header button is clicked; the interval
  timer fires; \<^verbatim>\<open>getUserMedia\<close> resolves or rejects inside \<^verbatim>\<open>startCamera\<close>; the oldest
  outstanding remote call settles with some outcome at some clock value. A timer callback
  exists only while an interval is registered, and a settlement only while a call is
  outstanding.
\<close>

datatype event =
    Click "string option"
  | Tick "string option"
  | CameraOk "string option"
  | CameraFail
  | Settle generate_outcome int

definition constant_outcome :: "generate_outcome \<Rightarrow> generate_content" where
  "constant_outcome outcome request = outcome"

fun step :: "json_parse \<Rightarrow> event \<Rightarrow> state \<Rightarrow> state" where
  "step JSON_parse (Click frame) s = rerender frame s (button_onClick s)"
| "step JSON_parse (Tick frame) s = (if interval s then captureFrame frame s else s)"
| "step JSON_parse (CameraOk frame) s =
     rerender frame s (s\<lparr>streamActive := True, permissionDenied := False\<rparr>)"
| "step JSON_parse CameraFail s =
     rerender None s
       (handleError ''Camera access denied or unavailable.'' (s\<lparr>permissionDenied := True\<rparr>))"
| "step JSON_parse (Settle outcome now) s =
     (case pending s of
        [] \<Rightarrow> s
      | base64Image # rest \<Rightarrow>
          handleCapture_settle
            (analyzeGesture JSON_parse (constant_outcome outcome) base64Image) now
            (s\<lparr>pending := rest\<rparr>))"

fun run :: "json_parse \<Rightarrow> event list \<Rightarrow> state \<Rightarrow> state" where
  "run JSON_parse [] s = s"
| "run JSON_parse (e # es) s = run JSON_parse es (step JSON_parse e s)"

section \<open>Auxiliary definitions\<close>

text \<open>
  The single-flight invariant: at most one call is outstanding, and the ref is set exactly
  while one is.
\<close>

definition guard_inv :: "state \<Rightarrow> bool" where
  "guard_inv s = (length (pending s) \<le> 1 \<and> (isProcessingRef s = (pending s \<noteq> [])))"

text \<open>Sample values used to instantiate the theorems below.\<close>

definition example_response :: "string \<Rightarrow> real \<Rightarrow> GestureResponse" where
  "example_response g c =
     \<lparr>gesture = g, confidence = c, description = ''a hand'', emoji = ''*'',
      actionSuggested = None\<rparr>"

definition example_parse :: json_parse where
  "example_parse text = (if text = ''{'' then None else Some (example_response text (9/10)))"

definition example_item :: "nat \<Rightarrow> HistoryItem" where
  "example_item i = \<lparr>timestamp = int i, result = example_response ''Fist'' (9/10)\<rparr>"

text \<open>Whether an event is the settlement of a remote call.\<close>

fun is_Settle :: "event \<Rightarrow> bool" where
  "is_Settle (Settle outcome now) = True"
| "is_Settle e = False"

text \<open>
  Whether, along a run from a state, every settlement happens while the application is
  scanning, that is, no call settles after a stop or a failure.
\<close>

fun settles_while_scanning :: "json_parse \<Rightarrow> event list \<Rightarrow> state \<Rightarrow> bool" where
  "settles_while_scanning P [] s = True"
| "settles_while_scanning P (e # es) s =
     ((is_Settle e \<longrightarrow> appState s = SCANNING) \<and> settles_while_scanning P es (step P e s))"

section \<open>Basic facts\<close>

lemmas app_defs = handleCapture_def handleCapture_try_def handleCapture_settle_def
  toggleScanning_def handleError_def button_onClick_def isScanning_def captureFrame_def
  captureLoopEffect_def rerender_def

lemma analyzeGesture_fulfils: "\<exists>r. analyzeGesture P G img = Inr r"
  by (simp add: analyzeGesture_def split: sum.splits)

lemma step_guard_inv: "guard_inv s \<Longrightarrow> guard_inv (step P e s)"
  using analyzeGesture_fulfils[of P]
  apply (cases e)
  apply (auto simp: guard_inv_def app_defs Let_def split: option.splits list.splits sum.splits)
  done

lemma run_guard_inv: "guard_inv s \<Longrightarrow> guard_inv (run P es s)"
  by (induction es arbitrary: s) (simp_all add: step_guard_inv)

lemma init_guard_inv: "guard_inv init"
  by (simp add: guard_inv_def init_def)

lemma tick_dropped: "isProcessingRef s \<Longrightarrow> step P (Tick frame) s = s"
  by (simp add: captureFrame_def handleCapture_def split: option.splits)

lemma settle_clears: "\<not> isProcessingRef (handleCapture_settle awaited now s)"
  by (simp add: handleCapture_settle_def Let_def)

lemma settle_history:
  "history (handleCapture_settle (Inr c) now s) =
     (if gesture c \<noteq> ''None'' \<and> gesture c \<noteq> ''Error'' \<and> confidence c > 0.6
      then take 20 (\<lparr>timestamp = now, result = c\<rparr> # history s) else history s)"
  by (simp add: handleCapture_settle_def handleCapture_try_def Let_def)

lemma settle_currentResult: "currentResult (handleCapture_settle (Inr c) now s) = Some c"
  by (simp add: handleCapture_settle_def handleCapture_try_def Let_def)

lemma settle_history_length:
  "length (history s) \<le> 20 \<Longrightarrow> length (history (handleCapture_settle awaited now s)) \<le> 20"
  by (cases awaited) (simp_all add: handleCapture_settle_def handleCapture_try_def Let_def)

lemma history_handleCapture [simp]: "history (handleCapture img s) = history s"
  by (simp add: handleCapture_def)

lemma history_captureFrame [simp]: "history (captureFrame frame s) = history s"
  by (simp add: captureFrame_def split: option.splits)

lemma history_captureLoopEffect [simp]: "history (captureLoopEffect frame s) = history s"
  by (simp add: captureLoopEffect_def)

lemma history_rerender [simp]: "history (rerender frame old new) = history new"
  by (simp add: rerender_def)

lemma history_toggleScanning [simp]: "history (toggleScanning s) = history s"
  by (simp add: toggleScanning_def)

lemma history_button_onClick [simp]: "history (button_onClick s) = history s"
  by (simp add: button_onClick_def)

lemma history_handleError [simp]: "history (handleError msg s) = history s"
  by (simp add: handleError_def)

lemma history_step_other: "\<not> is_Settle e \<Longrightarrow> history (step P e s) = history s"
  by (cases e) simp_all

lemma history_run_other: "\<forall>e\<in>set es. \<not> is_Settle e \<Longrightarrow> history (run P es s) = history s"
  by (induction es arbitrary: s) (simp_all add: history_step_other)

lemma history_step_length: "length (history s) \<le> 20 \<Longrightarrow> length (history (step P e s)) \<le> 20"
  by (cases e) (simp_all add: settle_history_length split: list.splits)

lemma history_run_length: "length (history s) \<le> 20 \<Longrightarrow> length (history (run P es s)) \<le> 20"
  by (induction es arbitrary: s) (simp_all add: history_step_length)

lemma history_step_change:
  assumes "history (step P e s) \<noteq> history s"
  shows "\<exists>outcome now img rest c. e = Settle outcome now \<and> pending s = img # rest
           \<and> analyzeGesture P (constant_outcome outcome) img = Inr c
           \<and> gesture c \<noteq> ''None'' \<and> gesture c \<noteq> ''Error'' \<and> confidence c > 0.6
           \<and> history (step P e s) = take 20 (\<lparr>timestamp = now, result = c\<rparr> # history s)"
proof (cases e)
  case (Settle outcome now)
  show ?thesis
  proof (cases "pending s")
    case Nil
    with Settle assms show ?thesis by simp
  next
    case (Cons img rest)
    obtain c where c: "analyzeGesture P (constant_outcome outcome) img = Inr c"
      using analyzeGesture_fulfils by blast
    have h: "history (step P e s) =
        (if gesture c \<noteq> ''None'' \<and> gesture c \<noteq> ''Error'' \<and> confidence c > 0.6
         then take 20 (\<lparr>timestamp = now, result = c\<rparr> # history s) else history s)"
      using Settle Cons c by (simp add: settle_history)
    with assms have "gesture c \<noteq> ''None'' \<and> gesture c \<noteq> ''Error'' \<and> confidence c > 0.6"
      by (auto split: if_splits)
    with h Settle Cons c show ?thesis by auto
  qed
qed (use assms history_step_other[where e=e and s=s and P=P] in simp_all)

lemma ticks_without_interval: "\<not> interval s \<Longrightarrow> run P (map Tick frames) s = s"
  by (induction frames) simp_all

lemma step_stays_ERROR: "appState s = ERROR \<Longrightarrow> appState (step P e s) = ERROR"
  using analyzeGesture_fulfils[of P]
  apply (cases e)
  apply (auto simp: app_defs Let_def split: option.splits list.splits sum.splits)
  done

lemma run_stays_ERROR: "appState s = ERROR \<Longrightarrow> appState (run P es s) = ERROR"
  by (induction es arbitrary: s) (simp_all add: step_stays_ERROR)

lemma click_in_ERROR: "appState s = ERROR \<Longrightarrow> step P (Click frame) s = s"
  by (simp add: button_onClick_def rerender_def)

lemma run_append: "run P (es @ fs) s = run P fs (run P es s)"
  by (induction es arbitrary: s) simp_all

lemma click_stops:
  "appState s = SCANNING \<Longrightarrow>
     step P (Click frame) s = s\<lparr>appState := IDLE, currentResult := None, interval := False\<rparr>"
  by (simp add: app_defs)


text \<open>
  Stopping clears the current result, so as long as no call settles outside SCANNING an
  idle application holds none, and starting it then begins with none.
\<close>

lemma step_idle_no_result:
  assumes "is_Settle e \<longrightarrow> appState s = SCANNING"
    and "appState s = IDLE \<longrightarrow> currentResult s = None"
  shows "appState (step P e s) = IDLE \<longrightarrow> currentResult (step P e s) = None"
  using assms analyzeGesture_fulfils[of P]
  apply (cases e)
  apply (auto simp: app_defs Let_def split: option.splits list.splits sum.splits if_splits)
  done

lemma run_idle_no_result:
  "settles_while_scanning P es s \<Longrightarrow> appState s = IDLE \<longrightarrow> currentResult s = None \<Longrightarrow>
     appState (run P es s) = IDLE \<longrightarrow> currentResult (run P es s) = None"
proof (induction es arbitrary: s)
  case Nil
  then show ?case by simp
next
  case (Cons e es)
  from Cons.prems have "appState (step P e s) = IDLE \<longrightarrow> currentResult (step P e s) = None"
    using step_idle_no_result [of e s P] by simp
  with Cons.prems Cons.IH [of "step P e s"] show ?case by simp
qed

lemma start_without_late_settlement:
  assumes "settles_while_scanning P es init" and "appState (run P es init) = IDLE"
  shows "appState (toggleScanning (run P es init)) = SCANNING
    \<and> currentResult (toggleScanning (run P es init)) = None
    \<and> errorMsg (toggleScanning (run P es init)) = None"
proof -
  have "currentResult (run P es init) = None"
    using run_idle_no_result [OF assms(1)] assms(2) by (simp add: init_def)
  with assms(2) show ?thesis by (simp add: toggleScanning_def)
qed

section \<open>Claims\<close>

subsection \<open>C1: single-flight guard\<close>

text \<open>
  C1. After any sequence of events from the initial state at most one \<^verbatim>\<open>analyzeGesture\<close>
  call is outstanding, and \<^verbatim>\<open>isProcessingRef\<close> is set exactly while one is. A capture that
  arrives while the ref is set is dropped: \<^verbatim>\<open>handleCapture\<close> and the timer tick leave the
  whole state as it was, so no call is issued and nothing is queued. When the ref is clear,
  \<^verbatim>\<open>handleCapture\<close> sets it and issues the call. The continuation clears the ref whatever the
  awaited value, and on fulfilment (a parsed response or the fallback object alike) the
  result has been stored by then.
\<close>

theorem single_flight:
  "length (pending (run P es init)) \<le> 1
   \<and> (isProcessingRef (run P es init) = (pending (run P es init) \<noteq> []))
   \<and> (isProcessingRef s \<longrightarrow> handleCapture img s = s \<and> step P (Tick frame) s = s)
   \<and> (\<not> isProcessingRef s \<longrightarrow>
        isProcessingRef (handleCapture img s) \<and> pending (handleCapture img s) = pending s @ [img])
   \<and> \<not> isProcessingRef (handleCapture_settle awaited now s)
   \<and> currentResult (handleCapture_settle (Inr c) now s) = Some c"
proof -
  have "guard_inv (run P es init)"
    by (rule run_guard_inv) (rule init_guard_inv)
  then have "length (pending (run P es init)) \<le> 1"
    and "isProcessingRef (run P es init) = (pending (run P es init) \<noteq> [])"
    by (simp_all add: guard_inv_def)
  moreover have "isProcessingRef s \<longrightarrow> handleCapture img s = s \<and> step P (Tick frame) s = s"
    using tick_dropped by (simp add: handleCapture_def)
  moreover have "\<not> isProcessingRef s \<longrightarrow>
      isProcessingRef (handleCapture img s) \<and> pending (handleCapture img s) = pending s @ [img]"
    by (simp add: handleCapture_def)
  ultimately show ?thesis
    using settle_clears settle_currentResult by blast
qed

theorem single_flight_witness:
  "isProcessingRef (run example_parse [CameraOk None, Click (Some ''AAAA'')] init)
   \<and> pending (run example_parse [CameraOk None, Click (Some ''AAAA'')] init) = [''AAAA'']
   \<and> step example_parse (Tick (Some ''BBBB''))
        (run example_parse [CameraOk None, Click (Some ''AAAA'')] init)
      = run example_parse [CameraOk None, Click (Some ''AAAA'')] init
   \<and> \<not> isProcessingRef init
   \<and> pending (handleCapture ''AAAA'' init) = [''AAAA'']
   \<and> length (pending (run example_parse
        [CameraOk None, Click (Some ''AAAA''), Tick (Some ''BBBB''), Tick (Some ''CCCC'')] init)) \<le> 1"
  using single_flight [of example_parse "[CameraOk None, Click (Some ''AAAA''), Tick (Some ''BBBB''), Tick (Some ''CCCC'')]"
      "run example_parse [CameraOk None, Click (Some ''AAAA'')] init" "''BBBB''" "Some ''BBBB''"]
    single_flight [of example_parse "[]" init "''AAAA''"]
  by (simp add: app_defs init_def)

subsection \<open>C2: acceptance policy\<close>

text \<open>
  C2 as stated fails: the claim excludes the labels \<^verbatim>\<open>none\<close> and \<^verbatim>\<open>error\<close>, but the code
  compares with \<^verbatim>\<open>'None'\<close> and \<^verbatim>\<open>'Error'\<close>. A result labelled \<^verbatim>\<open>none\<close> with confidence 0.9
  is appended to the history.
\<close>

theorem acceptance_lowercase_counterexample:
  "gesture (example_response ''none'' (9/10)) = ''none''
   \<and> history (handleCapture_settle (Inr (example_response ''none'' (9/10))) 7 init)
       = [\<lparr>timestamp = 7, result = example_response ''none'' (9/10)\<rparr>]"
  by (simp add: handleCapture_settle_def handleCapture_try_def init_def example_response_def)

text \<open>
  C2, amended. For every fulfilled result \<open>c\<close>, the entry \<open>(now, c)\<close> is put in front of the
  history (cut to 20 entries) if the label of \<open>c\<close> is neither \<^verbatim>\<open>None\<close> nor \<^verbatim>\<open>Error\<close>, spelled
  exactly so, and its confidence is strictly greater than 0.6; otherwise the history is left
  as it was. The witness evaluates the three examples of the claim: Fist at 0.61 is
  appended, Fist at 0.60 and None at 0.95 are not.
\<close>

theorem acceptance_policy:
  "history (handleCapture_settle (Inr c) now s) =
     (if gesture c \<noteq> ''None'' \<and> gesture c \<noteq> ''Error'' \<and> confidence c > 0.6
      then take 20 (\<lparr>timestamp = now, result = c\<rparr> # history s)
      else history s)"
  by (rule settle_history)

theorem acceptance_policy_witness:
  "history (handleCapture_settle (Inr (example_response ''Fist'' 0.61)) 7 init)
     = [\<lparr>timestamp = 7, result = example_response ''Fist'' 0.61\<rparr>]
   \<and> history (handleCapture_settle (Inr (example_response ''Fist'' 0.60)) 7 init) = []
   \<and> history (handleCapture_settle (Inr (example_response ''None'' 0.95)) 7 init) = []
   \<and> history (handleCapture_settle (Inr (example_response ''Error'' 0.95)) 7 init) = []"
  using acceptance_policy [of "example_response ''Fist'' 0.61" 7 init]
    acceptance_policy [of "example_response ''Fist'' 0.60" 7 init]
    acceptance_policy [of "example_response ''None'' 0.95" 7 init]
    acceptance_policy [of "example_response ''Error'' 0.95" 7 init]
  by (simp add: init_def example_response_def)

subsection \<open>C3: bounded history\<close>

text \<open>
  C3. After any sequence of events from the initial state (whose history is empty) the
  history has at most 20 entries. An accepted result is put at the front; while fewer than
  20 entries are held nothing is removed, and when exactly 20 are held the last (oldest)
  one is dropped and the others keep their order.
\<close>

theorem bounded_history:
  "length (history (run P es init)) \<le> 20
   \<and> (gesture c \<noteq> ''None'' \<and> gesture c \<noteq> ''Error'' \<and> confidence c > 0.6 \<longrightarrow>
        (length (history s) < 20 \<longrightarrow>
           history (handleCapture_settle (Inr c) now s)
             = \<lparr>timestamp = now, result = c\<rparr> # history s)
      \<and> (length (history s) = 20 \<longrightarrow>
           history (handleCapture_settle (Inr c) now s)
             = \<lparr>timestamp = now, result = c\<rparr> # butlast (history s)))"
proof -
  have "length (history (run P es init)) \<le> 20"
    by (rule history_run_length) (simp add: init_def)
  then show ?thesis
    by (simp add: settle_history butlast_conv_take)
qed

theorem bounded_history_witness:
  "length (history (init\<lparr>history := map example_item [0..<20]\<rparr>)) = 20
   \<and> history (handleCapture_settle (Inr (example_response ''Peace Sign'' (7/10))) 99
        (init\<lparr>history := map example_item [0..<20]\<rparr>))
      = \<lparr>timestamp = 99, result = example_response ''Peace Sign'' (7/10)\<rparr>
          # map example_item [0..<19]
   \<and> history (handleCapture_settle (Inr (example_response ''Peace Sign'' (7/10))) 99 init)
      = [\<lparr>timestamp = 99, result = example_response ''Peace Sign'' (7/10)\<rparr>]"
  using bounded_history [of example_parse "[]" "example_response ''Peace Sign'' (7/10)"
      "init\<lparr>history := map example_item [0..<20]\<rparr>" 99]
    bounded_history [of example_parse "[]" "example_response ''Peace Sign'' (7/10)" init 99]
  by (simp add: init_def example_response_def butlast_conv_take take_map)

subsection \<open>C4: fallback on oracle failure\<close>

text \<open>
  C4 as stated fails on the value returned: when the remote call rejects, the result is not
  the object the claim gives (label \<^verbatim>\<open>error\<close>, glyph U+26A0); the code returns the label
  \<^verbatim>\<open>Error\<close> and the emoji U+26A0 U+FE0F.
\<close>

theorem sentinel_spelling_counterexample:
  "analyzeGesture_try example_parse (constant_outcome Rejected) ''AAAA'' = Inl TransportError
   \<and> analyzeGesture example_parse (constant_outcome Rejected) ''AAAA''
       \<noteq> Inr \<lparr>gesture = ''error'', confidence = 0, description = ''Failed to analyze frame.'',
               emoji = [CHR 0xE2, CHR 0x9A, CHR 0xA0], actionSuggested = None\<rparr>"
  by (simp add: analyzeGesture_def analyzeGesture_try_def constant_outcome_def errorFallback_def)

text \<open>
  C4, amended. For every image, parser and remote behaviour, \<^verbatim>\<open>analyzeGesture\<close> fulfils
  (it never rejects). Whenever its \<^verbatim>\<open>try\<close> block throws, in particular when the remote call
  rejects, when the response text is absent or empty, or when \<^verbatim>\<open>JSON.parse\<close> throws, the
  value is exactly the object with gesture \<^verbatim>\<open>Error\<close>, confidence 0, description
  \<^verbatim>\<open>Failed to analyze frame.\<close>, emoji U+26A0 U+FE0F and no suggested action.
\<close>

theorem sentinel_on_failure:
  "(\<exists>r. analyzeGesture P G img = Inr r)
   \<and> (analyzeGesture_try P G img = Inl e \<or> G (cleanBase64 img) = Rejected
        \<or> G (cleanBase64 img) = Resolved None \<or> G (cleanBase64 img) = Resolved (Some [])
        \<or> (G (cleanBase64 img) = Resolved (Some text) \<and> P text = None)
       \<longrightarrow> analyzeGesture P G img
             = Inr \<lparr>gesture = ''Error'', confidence = 0,
                    description = ''Failed to analyze frame.'',
                    emoji = [CHR 0xE2, CHR 0x9A, CHR 0xA0, CHR 0xEF, CHR 0xB8, CHR 0x8F],
                    actionSuggested = None\<rparr>)"
  by (auto simp: analyzeGesture_def analyzeGesture_try_def errorFallback_def
      split: sum.splits generate_outcome.splits option.splits if_splits)

theorem sentinel_on_failure_witness:
  "analyzeGesture example_parse (constant_outcome (Resolved (Some ''{''))) ''data:image/jpeg;base64,AAAA''
     = Inr \<lparr>gesture = ''Error'', confidence = 0, description = ''Failed to analyze frame.'',
            emoji = [CHR 0xE2, CHR 0x9A, CHR 0xA0, CHR 0xEF, CHR 0xB8, CHR 0x8F],
            actionSuggested = None\<rparr>
   \<and> analyzeGesture example_parse (constant_outcome Rejected) ''AAAA''
     = Inr \<lparr>gesture = ''Error'', confidence = 0, description = ''Failed to analyze frame.'',
            emoji = [CHR 0xE2, CHR 0x9A, CHR 0xA0, CHR 0xEF, CHR 0xB8, CHR 0x8F],
            actionSuggested = None\<rparr>"
  using sentinel_on_failure [of example_parse "constant_outcome (Resolved (Some ''{''))"
      "''data:image/jpeg;base64,AAAA''" SyntaxError "''{''"]
    sentinel_on_failure [of example_parse "constant_outcome Rejected" "''AAAA''" TransportError "[]"]
  by (simp add: constant_outcome_def example_parse_def)

subsection \<open>C5: the current result is always overwritten\<close>

text \<open>
  C5. The \<^verbatim>\<open>try\<close> body stores the awaited result as current result before and regardless
  of the acceptance test, so after the continuation of \<^verbatim>\<open>handleCapture\<close>, and after the
  settlement of the outstanding call in any state, the current result is the value that
  \<^verbatim>\<open>analyzeGesture\<close> returned, whatever its label and confidence.
\<close>

theorem current_result_totality:
  "currentResult (handleCapture_try c now s) = Some c
   \<and> currentResult (handleCapture_settle (Inr c) now s) = Some c
   \<and> (pending s = img # rest \<and> analyzeGesture P (constant_outcome outcome) img = Inr c
       \<longrightarrow> currentResult (step P (Settle outcome now) s) = Some c)"
  by (simp add: settle_currentResult) (simp add: handleCapture_try_def Let_def)

theorem current_result_totality_witness:
  "currentResult (step example_parse (Settle (Resolved (Some ''None'')) 5)
       (run example_parse [CameraOk None, Click (Some ''AAAA'')] init))
     = Some (example_response ''None'' (9/10))
   \<and> currentResult (step example_parse (Settle Rejected 5)
       (run example_parse [CameraOk None, Click (Some ''AAAA'')] init))
     = Some errorFallback"
  using current_result_totality [of "example_response ''None'' (9/10)" 5
      "run example_parse [CameraOk None, Click (Some ''AAAA'')] init" "''AAAA''" "[]"
      example_parse "Resolved (Some ''None'')"]
    current_result_totality [of errorFallback 5
      "run example_parse [CameraOk None, Click (Some ''AAAA'')] init" "''AAAA''" "[]"
      example_parse Rejected]
  by (simp add: app_defs init_def analyzeGesture_def analyzeGesture_try_def
      constant_outcome_def example_parse_def)

subsection \<open>C6: stopping while a call is in flight\<close>

text \<open>
  C6. Let the application be scanning with one call outstanding. Clicking the button stops
  it: the phase is IDLE, no interval is registered, the call is still outstanding. Timer
  ticks after that change nothing (no further call is issued). When the outstanding call
  then settles, its result becomes the current result and, if it passes the acceptance
  test, is put in front of the history; the ref is cleared and the phase stays IDLE.
\<close>

theorem cooperative_cancellation:
  assumes "appState s = SCANNING" and "pending s = [img]"
    and "analyzeGesture P (constant_outcome outcome) img = Inr c"
  shows "appState (step P (Click frame) s) = IDLE
   \<and> \<not> interval (step P (Click frame) s)
   \<and> pending (step P (Click frame) s) = [img]
   \<and> run P (map Tick frames) (step P (Click frame) s) = step P (Click frame) s
   \<and> currentResult (run P (Click frame # map Tick frames @ [Settle outcome now]) s) = Some c
   \<and> history (run P (Click frame # map Tick frames @ [Settle outcome now]) s)
       = (if gesture c \<noteq> ''None'' \<and> gesture c \<noteq> ''Error'' \<and> confidence c > 0.6
          then take 20 (\<lparr>timestamp = now, result = c\<rparr> # history s) else history s)
   \<and> \<not> isProcessingRef (run P (Click frame # map Tick frames @ [Settle outcome now]) s)
   \<and> pending (run P (Click frame # map Tick frames @ [Settle outcome now]) s) = []
   \<and> appState (run P (Click frame # map Tick frames @ [Settle outcome now]) s) = IDLE"
proof -
  define s1 where "s1 = step P (Click frame) s"
  have s1: "s1 = s\<lparr>appState := IDLE, currentResult := None, interval := False\<rparr>"
    unfolding s1_def using assms(1) by (rule click_stops)
  have ticks: "run P (map Tick frames) s1 = s1"
    by (rule ticks_without_interval) (simp add: s1)
  have first: "appState s1 = IDLE \<and> \<not> interval s1 \<and> pending s1 = [img]"
    using assms(2) by (simp add: s1)
  have "run P (Click frame # map Tick frames @ [Settle outcome now]) s
      = step P (Settle outcome now) (run P (map Tick frames) s1)"
    by (simp add: run_append s1_def)
  also have "\<dots> = handleCapture_settle (Inr c) now (s1\<lparr>pending := []\<rparr>)"
    using first assms(3) by (simp add: ticks)
  finally have fin: "run P (Click frame # map Tick frames @ [Settle outcome now]) s
      = handleCapture_settle (Inr c) now (s1\<lparr>pending := []\<rparr>)" .
  have last: "currentResult (handleCapture_settle (Inr c) now (s1\<lparr>pending := []\<rparr>)) = Some c
    \<and> history (handleCapture_settle (Inr c) now (s1\<lparr>pending := []\<rparr>))
       = (if gesture c \<noteq> ''None'' \<and> gesture c \<noteq> ''Error'' \<and> confidence c > 0.6
          then take 20 (\<lparr>timestamp = now, result = c\<rparr> # history s) else history s)
    \<and> \<not> isProcessingRef (handleCapture_settle (Inr c) now (s1\<lparr>pending := []\<rparr>))
    \<and> pending (handleCapture_settle (Inr c) now (s1\<lparr>pending := []\<rparr>)) = []
    \<and> appState (handleCapture_settle (Inr c) now (s1\<lparr>pending := []\<rparr>)) = IDLE"
    by (simp add: settle_currentResult settle_history settle_clears)
      (simp add: s1 handleCapture_settle_def handleCapture_try_def Let_def)
  show ?thesis
    unfolding fin using first ticks last unfolding s1_def by blast
qed

theorem cooperative_cancellation_witness:
  "appState (run example_parse [CameraOk None, Click (Some ''AAAA'')] init) = SCANNING
   \<and> pending (run example_parse [CameraOk None, Click (Some ''AAAA'')] init) = [''AAAA'']
   \<and> currentResult (run example_parse
        [CameraOk None, Click (Some ''AAAA''), Click None, Tick (Some ''BBBB''), Tick None,
         Settle (Resolved (Some ''Fist'')) 5] init)
      = Some (example_response ''Fist'' (9/10))
   \<and> history (run example_parse
        [CameraOk None, Click (Some ''AAAA''), Click None, Tick (Some ''BBBB''), Tick None,
         Settle (Resolved (Some ''Fist'')) 5] init)
      = [\<lparr>timestamp = 5, result = example_response ''Fist'' (9/10)\<rparr>]"
  using cooperative_cancellation [of "run example_parse [CameraOk None, Click (Some ''AAAA'')] init"
      "''AAAA''" example_parse "Resolved (Some ''Fist'')" "example_response ''Fist'' (9/10)"
      None "[Some ''BBBB'', None]" 5]
  by (simp add: app_defs init_def analyzeGesture_def analyzeGesture_try_def
      constant_outcome_def example_parse_def example_response_def)

subsection \<open>C7: starting\<close>

text \<open>
  C7. The claim asks that after starting no earlier current result is held. The code
  clears the current result in the stopping branch of \<^verbatim>\<open>toggleScanning\<close>, which achieves
  that on every run where no call settles outside SCANNING, but not when a call issued
  before the stop settles after it. At the sequence: camera ready, start with a capture,
  stop, the call settles with a response labelled Fist, the application is IDLE and holds
  that result; starting again, by \<^verbatim>\<open>toggleScanning\<close> or by the click, makes it SCANNING
  with the result of the previous session still held.
\<close>

theorem start_after_late_settlement:
  "appState (run example_parse
       [CameraOk None, Click (Some ''AAAA''), Click None, Settle (Resolved (Some ''Fist'')) 5] init)
     = IDLE
   \<and> currentResult (run example_parse
       [CameraOk None, Click (Some ''AAAA''), Click None, Settle (Resolved (Some ''Fist'')) 5] init)
     = Some (example_response ''Fist'' (9/10))
   \<and> appState (toggleScanning (run example_parse
       [CameraOk None, Click (Some ''AAAA''), Click None, Settle (Resolved (Some ''Fist'')) 5] init))
     = SCANNING
   \<and> currentResult (toggleScanning (run example_parse
       [CameraOk None, Click (Some ''AAAA''), Click None, Settle (Resolved (Some ''Fist'')) 5] init))
     = Some (example_response ''Fist'' (9/10))
   \<and> currentResult (run example_parse
       [CameraOk None, Click (Some ''AAAA''), Click None, Settle (Resolved (Some ''Fist'')) 5,
        Click None] init)
     = Some (example_response ''Fist'' (9/10))"
  by (simp add: app_defs init_def analyzeGesture_def analyzeGesture_try_def
      constant_outcome_def example_parse_def example_response_def)

subsection \<open>C8: failure latch\<close>

text \<open>
  C8. \<^verbatim>\<open>handleError\<close> sets the phase to ERROR and records the message, from any phase; in
  particular a camera failure while SCANNING ends in ERROR with the camera message and no
  interval registered. In ERROR the button is disabled, so a click leaves the whole state
  unchanged, and after any further sequence of events the phase is still ERROR: the
  application itself offers no way back.
\<close>

theorem failure_latch:
  "appState (handleError msg s) = ERROR
   \<and> errorMsg (handleError msg s) = Some msg
   \<and> (appState s = SCANNING \<longrightarrow>
        appState (step P CameraFail s) = ERROR
        \<and> errorMsg (step P CameraFail s) = Some ''Camera access denied or unavailable.''
        \<and> \<not> interval (step P CameraFail s))
   \<and> button_onClick (handleError msg s) = handleError msg s
   \<and> step P (Click frame) (handleError msg s) = handleError msg s
   \<and> appState (run P es (handleError msg s)) = ERROR
   \<and> (appState s = ERROR \<longrightarrow> step P (Click frame) s = s \<and> appState (run P es s) = ERROR)"
proof -
  have e: "appState (handleError msg s) = ERROR"
    by (simp add: handleError_def)
  have "appState s = SCANNING \<longrightarrow>
        appState (step P CameraFail s) = ERROR
        \<and> errorMsg (step P CameraFail s) = Some ''Camera access denied or unavailable.''
        \<and> \<not> interval (step P CameraFail s)"
    by (simp add: app_defs)
  moreover have "button_onClick (handleError msg s) = handleError msg s"
    using e by (simp add: button_onClick_def)
  moreover have "errorMsg (handleError msg s) = Some msg"
    by (simp add: handleError_def)
  ultimately show ?thesis
    using e click_in_ERROR run_stays_ERROR by blast
qed

theorem failure_latch_witness:
  "appState (run example_parse [CameraOk None, Click None] init) = SCANNING
   \<and> appState (step example_parse CameraFail (run example_parse [CameraOk None, Click None] init))
       = ERROR
   \<and> step example_parse (Click (Some ''AAAA''))
        (step example_parse CameraFail (run example_parse [CameraOk None, Click None] init))
      = step example_parse CameraFail (run example_parse [CameraOk None, Click None] init)
   \<and> appState (run example_parse [Click None, CameraOk (Some ''AAAA''), Tick None]
        (handleError ''denied'' (run example_parse [CameraOk None, Click None] init))) = ERROR"
  using failure_latch [of "''denied''" "run example_parse [CameraOk None, Click None] init"
      example_parse "Some ''AAAA''" "[Click None, CameraOk (Some ''AAAA''), Tick None]"]
    failure_latch [of "''denied''"
      "step example_parse CameraFail (run example_parse [CameraOk None, Click None] init)"
      example_parse "Some ''AAAA''" "[]"]
  by (simp add: app_defs init_def)

subsection \<open>C9: starting and stopping leave the history alone\<close>

text \<open>
  C9. Neither \<^verbatim>\<open>toggleScanning\<close> nor a click on the button changes the history, and no
  sequence of events without a settlement does, so the history survives any number of
  stop/start cycles. Whenever one event does change the history, that event is the
  settlement of an outstanding call whose result passed the acceptance test, and the new
  history is that result put in front of the old one, cut to 20 entries.
\<close>

theorem history_frame:
  "history (toggleScanning s) = history s
   \<and> history (button_onClick s) = history s
   \<and> history (step P (Click frame) s) = history s
   \<and> ((\<forall>e\<in>set es. \<not> is_Settle e) \<longrightarrow> history (run P es s) = history s)
   \<and> (history (step P e s) \<noteq> history s \<longrightarrow>
        (\<exists>outcome now img rest c.
           e = Settle outcome now \<and> pending s = img # rest
           \<and> analyzeGesture P (constant_outcome outcome) img = Inr c
           \<and> gesture c \<noteq> ''None'' \<and> gesture c \<noteq> ''Error'' \<and> confidence c > 0.6
           \<and> history (step P e s) = take 20 (\<lparr>timestamp = now, result = c\<rparr> # history s)))"
  using history_run_other [of es P s] history_step_change [of P e s]
  by simp

theorem history_frame_witness:
  "history (run example_parse
      [CameraOk None, Click (Some ''AAAA''), Settle (Resolved (Some ''Fist'')) 5] init)
     = [\<lparr>timestamp = 5, result = example_response ''Fist'' (9/10)\<rparr>]
   \<and> history (run example_parse [Click None, Click (Some ''BBBB''), Tick None, Click None]
        (run example_parse
          [CameraOk None, Click (Some ''AAAA''), Settle (Resolved (Some ''Fist'')) 5] init))
     = [\<lparr>timestamp = 5, result = example_response ''Fist'' (9/10)\<rparr>]"
  using history_frame [of
      "run example_parse [CameraOk None, Click (Some ''AAAA''), Settle (Resolved (Some ''Fist'')) 5] init"
      example_parse None "[Click None, Click (Some ''BBBB''), Tick None, Click None]"
      "Settle (Resolved (Some ''Fist'')) 5"]
    history_frame [of "run example_parse [CameraOk None, Click (Some ''AAAA'')] init"
      example_parse None "[]" "Settle (Resolved (Some ''Fist'')) 5"]
  by (simp add: app_defs init_def analyzeGesture_def analyzeGesture_try_def
      constant_outcome_def example_parse_def example_response_def)

subsection \<open>C10: spelling of the rejected labels\<close>

text \<open>
  C10 as stated fails in its last part: the rejection of the fallback object does not
  depend on its label. With the label changed to lowercase \<^verbatim>\<open>error\<close> it is still kept out
  of the history, because its confidence is 0.
\<close>

theorem fallback_relabelled_counterexample:
  "gesture (errorFallback\<lparr>gesture := ''error''\<rparr>) \<noteq> ''Error''
   \<and> history (handleCapture_settle (Inr (errorFallback\<lparr>gesture := ''error''\<rparr>)) 7 init) = []"
  by (simp add: handleCapture_settle_def handleCapture_try_def init_def errorFallback_def)

text \<open>
  C10, amended. The acceptance test compares the label with exactly \<^verbatim>\<open>None\<close> and \<^verbatim>\<open>Error\<close>:
  a result with any other label, such as lowercase \<^verbatim>\<open>none\<close> or \<^verbatim>\<open>error\<close>, and confidence above
  0.6 is appended, and a result labelled \<^verbatim>\<open>None\<close> or \<^verbatim>\<open>Error\<close> never is. The fallback object
  carries the label \<^verbatim>\<open>Error\<close> and confidence 0; it is rejected whatever label it carries, so
  a settlement of a rejected remote call never changes the history.
\<close>

theorem label_case_sensitive:
  "(gesture c \<noteq> ''None'' \<and> gesture c \<noteq> ''Error'' \<and> confidence c > 0.6 \<longrightarrow>
      history (handleCapture_settle (Inr c) now s)
        = take 20 (\<lparr>timestamp = now, result = c\<rparr> # history s))
   \<and> ((gesture c = ''none'' \<or> gesture c = ''error'') \<and> confidence c > 0.6 \<longrightarrow>
      history (handleCapture_settle (Inr c) now s)
        = take 20 (\<lparr>timestamp = now, result = c\<rparr> # history s))
   \<and> (gesture c = ''None'' \<or> gesture c = ''Error'' \<longrightarrow>
      history (handleCapture_settle (Inr c) now s) = history s)
   \<and> gesture errorFallback = ''Error''
   \<and> history (handleCapture_settle (Inr (errorFallback\<lparr>gesture := g\<rparr>)) now s) = history s
   \<and> history (step P (Settle Rejected now) s) = history s"
proof -
  have "history (step P (Settle Rejected now) s) = history s"
    by (simp add: analyzeGesture_def analyzeGesture_try_def constant_outcome_def settle_history
        errorFallback_def split: list.splits)
  moreover have "history (handleCapture_settle (Inr (errorFallback\<lparr>gesture := g\<rparr>)) now s) = history s"
    by (simp add: settle_history errorFallback_def)
  moreover have "gesture errorFallback = ''Error''"
    by (simp add: errorFallback_def)
  ultimately show ?thesis
    by (auto simp: settle_history)
qed

theorem label_case_sensitive_witness:
  "history (handleCapture_settle (Inr (example_response ''none'' (9/10))) 7 init)
     = [\<lparr>timestamp = 7, result = example_response ''none'' (9/10)\<rparr>]
   \<and> history (handleCapture_settle (Inr (example_response ''error'' (9/10))) 7 init)
     = [\<lparr>timestamp = 7, result = example_response ''error'' (9/10)\<rparr>]
   \<and> history (handleCapture_settle (Inr (example_response ''Error'' (9/10))) 7 init) = []
   \<and> history (handleCapture_settle (Inr (example_response ''None'' (9/10))) 7 init) = []"
  using label_case_sensitive [of "example_response ''none'' (9/10)" 7 init]
    label_case_sensitive [of "example_response ''error'' (9/10)" 7 init]
    label_case_sensitive [of "example_response ''Error'' (9/10)" 7 init]
    label_case_sensitive [of "example_response ''None'' (9/10)" 7 init]
  by (simp add: init_def example_response_def)

end
